theory Spec2Isabelle
  imports Main
begin

section \<open>Strings and paths\<close>

text \<open>
  The program is a Node.js script.  Strings are modelled as \<^typ>\<open>string\<close>; all characters
  the program inspects (slash, dot, the letters of the extension table) are ASCII.
  A JavaScript value that may be \<open>undefined\<close> or \<open>null\<close> is an \<^typ>\<open>'a option\<close>.
\<close>

text \<open>\<open>String.prototype.toLowerCase\<close> on ASCII: the letters \<open>A\<close> to \<open>Z\<close> are mapped to
  \<open>a\<close> to \<open>z\<close>, every other character is kept.\<close>

definition toLowerChar :: "char \<Rightarrow> char" where
  "toLowerChar c =
     (case map_of (zip ''ABCDEFGHIJKLMNOPQRSTUVWXYZ'' ''abcdefghijklmnopqrstuvwxyz'') c of
        Some l \<Rightarrow> l
      | None \<Rightarrow> c)"

definition toLowerCase :: "string \<Rightarrow> string" where
  "toLowerCase s = map toLowerChar s"

text \<open>Truthiness of a possibly undefined string: \<open>undefined\<close> and the empty string are falsy.\<close>

fun truthy :: "string option \<Rightarrow> bool" where
  "truthy None = False"
| "truthy (Some s) = (s \<noteq> [])"

text \<open>A possibly undefined string inside a template literal.\<close>

fun js_str :: "string option \<Rightarrow> string" where
  "js_str None = ''undefined''"
| "js_str (Some s) = s"

text \<open>
  \<open>path.basename\<close> of Node (POSIX flavour): trailing slashes are ignored, the result is the
  part after the last remaining slash.  \<open>path.basename('./a.png')\<close> is \<open>a.png\<close>,
  \<open>path.basename('dir/')\<close> is \<open>dir\<close>, \<open>path.basename('/')\<close> is empty.
\<close>

definition is_slash :: "char \<Rightarrow> bool" where
  "is_slash c = (c = CHR ''/'')"

definition is_dot :: "char \<Rightarrow> bool" where
  "is_dot c = (c = CHR ''.'')"

definition basename :: "string \<Rightarrow> string" where
  "basename p = rev (takeWhile (\<lambda>c. \<not> is_slash c) (dropWhile is_slash (rev p)))"

text \<open>
  \<open>path.extname\<close> of Node (POSIX flavour): within the last portion of the path (the
  basename), the text from the last dot to the end; empty when that portion has no dot,
  when nothing precedes its last dot (\<open>.bashrc\<close>), and when the portion is \<open>..\<close>.
\<close>

definition extname_of_base :: "string \<Rightarrow> string" where
  "extname_of_base base =
     (let ext = rev (takeWhile (\<lambda>c. \<not> is_dot c) (rev base));
          stem = take (length base - length ext - 1) base
      in if \<not> list_ex is_dot base then []
         else if stem = [] then []
         else if base = ''..'' then []
         else CHR ''.'' # ext)"

definition extname :: "string \<Rightarrow> string" where
  "extname p = extname_of_base (basename p)"

section \<open>Content types\<close>

text \<open>The extension table of \<open>getContentType\<close>, in the order of the source.\<close>

definition contentTypes :: "(string \<times> string) list" where
  "contentTypes =
     [(''.html'', ''text/html''),
      (''.css'', ''text/css''),
      (''.js'', ''application/javascript''),
      (''.json'', ''application/json''),
      (''.png'', ''image/png''),
      (''.jpg'', ''image/jpeg''),
      (''.jpeg'', ''image/jpeg''),
      (''.gif'', ''image/gif''),
      (''.svg'', ''image/svg+xml''),
      (''.txt'', ''text/plain''),
      (''.pdf'', ''application/pdf'')]"

text \<open>\<open>contentTypes[ext] || "application/octet-stream"\<close>: every value of the table is a
  non-empty string, so the default is taken exactly when the key is absent.\<close>

definition getContentType :: "string \<Rightarrow> string" where
  "getContentType filePath =
     (let ext = toLowerCase (extname filePath)
      in case map_of contentTypes ext of
           Some t \<Rightarrow> if truthy (Some t) then t else ''application/octet-stream''
         | None \<Rightarrow> ''application/octet-stream'')"

text \<open>A path with its extension lower-cased in place: the directories, the stem of the
  last portion and the trailing slashes are kept as they are.\<close>

definition lowercase_extension :: "string \<Rightarrow> string" where
  "lowercase_extension p =
     (let e = extname p;
          t = length (takeWhile is_slash (rev p));
          n = length p - t - length e
      in take n p @ toLowerCase e @ drop (n + length e) p)"

section \<open>Byte-size formatting\<close>

text \<open>Decimal rendering of a natural number, as \<open>Number.prototype.toString\<close> renders an
  integer.\<close>

definition digit_char :: "nat \<Rightarrow> char" where
  "digit_char d = ''0123456789'' ! (d mod 10)"

fun show_nat :: "nat \<Rightarrow> string" where
  "show_nat n = (if n < 10 then [digit_char n] else show_nat (n div 10) @ [digit_char (n mod 10)])"

declare show_nat.simps [simp del]

text \<open>
  The exact integer logarithm \<open>floor(log_k n)\<close> of a number \<open>n > 0\<close>: the number of times
  \<open>n\<close> can be divided by \<open>k\<close> before it drops below \<open>k\<close>.  This is the index the
  specification speaks of.  It is not what the program computes: the program evaluates
  \<open>Math.floor(Math.log(bytes) / Math.log(k))\<close> in double-precision floating point, see
  \<open>formatBytes\<close> below.
\<close>

fun exact_floor_log :: "nat \<Rightarrow> nat \<Rightarrow> nat" where
  "exact_floor_log n k = (if k \<le> 1 \<or> n < k then 0 else Suc (exact_floor_log (n div k) k))"

declare exact_floor_log.simps [simp del]

text \<open>
  \<open>(bytes / Math.pow(k, i)).toFixed(dm)\<close> picks the integer \<open>n\<close> for which \<open>n / 10^dm\<close> is
  closest to the quotient, the larger one on a tie; \<open>toFixed_digits bytes d dm\<close> is that \<open>n\<close>
  for the quotient \<open>bytes / d\<close>.  The division by a power of 1024 is exact in binary
  floating point.
\<close>

definition toFixed_digits :: "nat \<Rightarrow> nat \<Rightarrow> nat \<Rightarrow> nat" where
  "toFixed_digits bytes d dm = (2 * bytes * 10 ^ dm + d) div (2 * d)"

text \<open>
  \<open>parseFloat(s) + " "\<close> for the \<open>toFixed\<close> string of \<open>n / 10^dm\<close>: the integer part, then
  the \<open>dm\<close> fraction digits without their trailing zeros, and no decimal point when no
  fraction digit is left.
\<close>

definition show_fixed :: "nat \<Rightarrow> nat \<Rightarrow> string" where
  "show_fixed n dm =
     (let whole = show_nat (n div 10 ^ dm);
          frac = show_nat (n mod 10 ^ dm);
          padded = replicate (dm - length frac) CHR ''0'' @ frac;
          digits = rev (dropWhile (\<lambda>c. c = CHR ''0'') (rev padded))
      in if dm = 0 \<or> digits = [] then whole else whole @ ''.'' @ digits)"

definition sizes :: "string list" where
  "sizes = [''Bytes'', ''KB'', ''MB'', ''GB'', ''TB'', ''PB'', ''EB'', ''ZB'', ''YB'']"

text \<open>\<open>sizes[i]\<close> inside a string concatenation: an index outside the array reads
  \<open>undefined\<close>, which is concatenated as the text \<open>undefined\<close>.\<close>

definition size_name :: "nat \<Rightarrow> string" where
  "size_name i = js_str (if i < length sizes then Some (sizes ! i) else None)"

text \<open>
  \<open>formatBytes(bytes, decimals)\<close> for a byte count, a natural number (the sizes of the
  objects listed); the call \<open>formatBytes(bytes)\<close> of the source is \<open>formatBytes q bytes 2\<close>.
  The index \<open>i\<close> is computed in floating point: \<open>q bytes k\<close> stands for the number
  \<open>Math.floor(Math.log(bytes) / Math.log(k))\<close> as the JavaScript engine computes it in
  double precision.  What \<open>Math.log\<close> returns is left to the engine, so \<open>q\<close> is a parameter
  and nothing is assumed of it; for \<open>bytes \<ge> 1\<close> the logarithm is not negative, so the index
  is a natural number.  Next to a power of 1024 it can differ from the exact logarithm.
  The rendering of the number is exact for the few digits the program asks for; \<open>toFixed\<close>
  raises a \<open>RangeError\<close> beyond 100 digits, which no call of the program reaches.
\<close>

definition formatBytes :: "(nat \<Rightarrow> nat \<Rightarrow> nat) \<Rightarrow> nat \<Rightarrow> int \<Rightarrow> string" where
  "formatBytes q bytes decimals =
     (if bytes = 0 then ''0 Bytes''
      else let k = 1024;
               dm = (if decimals < 0 then 0 else nat decimals);
               i = q bytes k
           in show_fixed (toFixed_digits bytes (k ^ i) dm) dm @ '' '' @ size_name i)"

section \<open>Loading the environment\<close>

text \<open>The process environment, and the variables a dotenv file defines.\<close>

type_synonym env = "string \<rightharpoonup> string"

text \<open>
  \<open>dotenv.config({ path })\<close>: the variables of the file are added to the process
  environment; a variable the environment already holds keeps its value (the \<open>override\<close>
  option of dotenv is off unless it is passed, and the source never passes it).  A file
  that cannot be read leaves the environment as it is and raises nothing.
  \<open>files path\<close> is the parsed content of the file at \<open>path\<close>, if there is one.
\<close>

definition dotenv_config :: "(string \<Rightarrow> env option) \<Rightarrow> string \<Rightarrow> env \<Rightarrow> env" where
  "dotenv_config files path processEnv =
     (case files path of
        None \<Rightarrow> processEnv
      | Some parsed \<Rightarrow>
          (\<lambda>key. case processEnv key of Some v \<Rightarrow> Some v | None \<Rightarrow> parsed key))"

text \<open>The variables a file defines; none when the file cannot be read.\<close>

definition file_vars :: "(string \<Rightarrow> env option) \<Rightarrow> string \<Rightarrow> env" where
  "file_vars files path = (case files path of None \<Rightarrow> Map.empty | Some parsed \<Rightarrow> parsed)"

text \<open>\<open>Array.prototype.indexOf\<close>: the first index of the element, or \<open>-1\<close>.\<close>

fun indexOf :: "'a list \<Rightarrow> 'a \<Rightarrow> int" where
  "indexOf [] x = -1"
| "indexOf (y # ys) x =
     (if y = x then 0 else let i = indexOf ys x in if i = -1 then -1 else i + 1)"

text \<open>
  The first statements of the script: \<open>dotenv.config()\<close> on the default file \<open>.env\<close>, then
  the file named after \<open>--env-file\<close> in \<open>process.argv\<close>.  The result is the environment
  and the lines printed.
\<close>

definition load_environment ::
    "(string \<Rightarrow> env option) \<Rightarrow> string list \<Rightarrow> env \<Rightarrow> env \<times> string list" where
  "load_environment files process_argv env0 =
     (let env1 = dotenv_config files ''.env'' env0
      in if ''--env-file'' \<in> set process_argv then
           let envFileIndex = indexOf process_argv ''--env-file''
           in if envFileIndex > -1 \<and> envFileIndex < int (length process_argv) - 1 then
                let envFilePath = process_argv ! nat (envFileIndex + 1)
                in (dotenv_config files envFilePath env1,
                    [''Loaded environment from: '' @ envFilePath])
              else (env1, [])
         else (env1, []))"

section \<open>The storage API and the local file system\<close>

text \<open>The commands the program sends, with the fields it fills in.  A field is
  \<^typ>\<open>string option\<close> where the program passes on a value that may be \<open>undefined\<close>.\<close>

datatype s3_request =
    ListBucketsCommand
  | GetBucketLocationCommand "string option"
  | CreateBucketCommand "string option" "string option"
  | DeleteBucketCommand "string option"
  | ListObjectsV2Command "string option" "string option"
  | PutObjectCommand "string option" string string string
  | GetObjectCommand "string option" "string option"
  | DeleteObjectCommand "string option" "string option"

text \<open>
  The arguments are: \<open>Bucket\<close> for \<open>GetBucketLocationCommand\<close> and \<open>DeleteBucketCommand\<close>;
  \<open>Bucket\<close> and \<open>CreateBucketConfiguration.LocationConstraint\<close> for \<open>CreateBucketCommand\<close>;
  \<open>Bucket\<close> and \<open>Prefix\<close> for \<open>ListObjectsV2Command\<close>; \<open>Bucket\<close>, \<open>Key\<close>, \<open>Body\<close> and
  \<open>ContentType\<close> for \<open>PutObjectCommand\<close>; \<open>Bucket\<close> and \<open>Key\<close> for the last two.
\<close>

record bucket_entry =
  Name :: "string option"
  CreationDate :: "string option"

record object_entry =
  Key :: "string option"
  Size :: "nat option"
  LastModified :: "string option"

text \<open>The fields of a response that the program reads; a field that is absent reads
  \<open>undefined\<close>.  A body is present or not, whatever its content.\<close>

record s3_response =
  Buckets :: "bucket_entry list option"
  LocationConstraint :: "string option"
  Contents :: "object_entry list option"
  Body :: "string option"

text \<open>
  The world outside the program: \<open>send region command\<close> is the answer of the storage API
  to a command sent through a client bound to \<open>region\<close> (\<open>Inl\<close> a rejection),
  \<open>readFileSync\<close> reads a local file, \<open>pipeline path body\<close> copies a response body
  to the file opened at \<open>path\<close> and returns the error, if any, and
  \<open>floor_log_quotient bytes k\<close> is the number \<open>Math.floor(Math.log(bytes) / Math.log(k))\<close>
  that the JavaScript engine computes in double-precision floating point.
\<close>

record world =
  send :: "string option \<Rightarrow> s3_request \<Rightarrow> string + s3_response"
  readFileSync :: "string \<Rightarrow> string + string"
  pipeline :: "string \<Rightarrow> string \<Rightarrow> string option"
  floor_log_quotient :: "nat \<Rightarrow> nat \<Rightarrow> nat"

text \<open>What one run of a handler does: the exit code of the process, the commands sent
  (each with the region of its client), the lines written to standard output and to
  standard error, and the paths opened for writing.\<close>

record result =
  exit_code :: nat
  api_calls :: "(string option \<times> s3_request) list"
  stdout :: "string list"
  stderr :: "string list"
  files_opened :: "string list"

text \<open>The parsed options, as the handlers read them from \<open>argv\<close>.\<close>

type_synonym argv = "string \<rightharpoonup> string"

text \<open>\<open>a || b\<close> for a possibly undefined string \<open>a\<close>.\<close>

fun or_else :: "string option \<Rightarrow> string \<Rightarrow> string" where
  "or_else None d = d"
| "or_else (Some s) d = (if s = [] then d else s)"

text \<open>\<open>getS3Client\<close> logs the region and binds the client to it.\<close>

definition getS3Client_log :: "string option \<Rightarrow> string" where
  "getS3Client_log region = ''Creating S3 client with region: '' @ js_str region"

section \<open>The handlers\<close>

text \<open>
  Each handler is an \<open>async\<close> function whose body is one \<open>try\<close> block; the \<open>catch\<close> block
  prints the error after a prefix and calls \<open>process.exit(1)\<close>.  An error is rendered by
  its message.  \<open>quoted s\<close> is \<open>s\<close> between single quotes.
\<close>

definition quoted :: "string \<Rightarrow> string" where
  "quoted s = [CHR 0x27] @ s @ [CHR 0x27]"

definition succeeded ::
    "(string option \<times> s3_request) list \<Rightarrow> string list \<Rightarrow> string list \<Rightarrow> result" where
  "succeeded calls out opened =
     \<lparr>exit_code = 0, api_calls = calls, stdout = out, stderr = [], files_opened = opened\<rparr>"

definition failed ::
    "(string option \<times> s3_request) list \<Rightarrow> string list \<Rightarrow> string \<Rightarrow> string list \<Rightarrow> result" where
  "failed calls out message opened =
     \<lparr>exit_code = 1, api_calls = calls, stdout = out, stderr = [message], files_opened = opened\<rparr>"

text \<open>The message of the \<open>TypeError\<close> that \<open>path.basename\<close> and \<open>readFileSync\<close> throw when
  the path is \<open>undefined\<close>.\<close>

definition path_TypeError :: string where
  "path_TypeError = ''TypeError: The path argument must be of type string. Received undefined''"

definition listBuckets :: "world \<Rightarrow> argv \<Rightarrow> result" where
  "listBuckets w argv =
     (let region = argv ''region'';
          out = [''Using region parameter: '' @ js_str region,
                 getS3Client_log region,
                 ''Sending ListBucketsCommand...''];
          command = ListBucketsCommand
      in case send w region command of
           Inl error \<Rightarrow> failed [(region, command)] out (''Error listing buckets: '' @ error) []
         | Inr response \<Rightarrow>
             succeeded [(region, command)]
               (out @
                [''NOTE: S3 ListBucketsCommand returns ALL buckets regardless of region!'',
                 ''Listing all buckets (use get-bucket-region to check actual region):''] @
                (case Buckets response of
                   None \<Rightarrow> [''No buckets found.'']
                 | Some buckets \<Rightarrow>
                     if length buckets > 0 then
                       map (\<lambda>(index, bucket).
                              show_nat (index + 1) @ ''. '' @ js_str (Name bucket) @
                              '' (Created: '' @ js_str (CreationDate bucket) @ '')'')
                         (enumerate 0 buckets)
                     else [''No buckets found.'']))
               [])"

definition getBucketRegion :: "world \<Rightarrow> argv \<Rightarrow> result" where
  "getBucketRegion w argv =
     (let client_region = Some ''us-east-1'';
          out = [''Checking region for bucket: '' @ js_str (argv ''name'')];
          command = GetBucketLocationCommand (argv ''name'')
      in case send w client_region command of
           Inl error \<Rightarrow>
             failed [(client_region, command)] out
               (''Error getting region for bucket '' @ quoted (js_str (argv ''name'')) @ '': '' @
                error) []
         | Inr response \<Rightarrow>
             let region = LocationConstraint response;
                 region = (if \<not> truthy region then Some ''us-east-1'' else region)
             in succeeded [(client_region, command)]
                  (out @ [''Bucket '' @ quoted (js_str (argv ''name'')) @
                          '' is in region: '' @ js_str region])
                  [])"

definition createBucket :: "world \<Rightarrow> argv \<Rightarrow> result" where
  "createBucket w argv =
     (let region = argv ''region'';
          out = [getS3Client_log region];
          command = CreateBucketCommand (argv ''name'')
                      (if region \<noteq> Some ''us-east-1'' then region else None)
      in case send w region command of
           Inl error \<Rightarrow> failed [(region, command)] out (''Error creating bucket: '' @ error) []
         | Inr response \<Rightarrow>
             succeeded [(region, command)]
               (out @ [''Bucket '' @ quoted (js_str (argv ''name'')) @
                       '' created successfully in region '' @ js_str region @ ''.''])
               [])"

definition deleteBucket :: "world \<Rightarrow> argv \<Rightarrow> result" where
  "deleteBucket w argv =
     (let region = argv ''region'';
          out = [getS3Client_log region];
          command = DeleteBucketCommand (argv ''name'')
      in case send w region command of
           Inl error \<Rightarrow> failed [(region, command)] out (''Error deleting bucket: '' @ error) []
         | Inr response \<Rightarrow>
             succeeded [(region, command)]
               (out @ [''Bucket '' @ quoted (js_str (argv ''name'')) @ '' deleted successfully.''])
               [])"

definition listFiles :: "world \<Rightarrow> argv \<Rightarrow> result" where
  "listFiles w argv =
     (let region = argv ''region'';
          out = [getS3Client_log region];
          command = ListObjectsV2Command (argv ''bucket'') (argv ''prefix'')
      in case send w region command of
           Inl error \<Rightarrow> failed [(region, command)] out (''Error listing objects: '' @ error) []
         | Inr response \<Rightarrow>
             succeeded [(region, command)]
               (out @
                [''Contents of bucket '' @ quoted (js_str (argv ''bucket'')) @
                 (if truthy (argv ''prefix'')
                  then '' with prefix '' @ quoted (js_str (argv ''prefix''))
                  else []) @
                 '':''] @
                (case Contents response of
                   None \<Rightarrow> [''No objects found.'']
                 | Some objects \<Rightarrow>
                     if length objects > 0 then
                       map (\<lambda>(index, object).
                              show_nat (index + 1) @ ''. '' @ js_str (Key object) @
                              '' (Size: '' @
                              formatBytes (floor_log_quotient w)
                                (case Size object of None \<Rightarrow> 0 | Some n \<Rightarrow> n) 2 @
                              '', Last Modified: '' @ js_str (LastModified object) @ '')'')
                         (enumerate 0 objects)
                     else [''No objects found.'']))
               [])"

definition uploadFile :: "world \<Rightarrow> argv \<Rightarrow> result" where
  "uploadFile w argv =
     (let region = argv ''region'';
          prefix = ''Error uploading file: ''
      in case argv ''file'' of
           None \<Rightarrow>
             if truthy (argv ''key'')
             then failed [] [getS3Client_log region] (prefix @ path_TypeError) []
             else failed [] [] (prefix @ path_TypeError) []
         | Some filePath \<Rightarrow>
             let key = or_else (argv ''key'') (basename filePath);
                 out = [getS3Client_log region]
             in case readFileSync w filePath of
                  Inl error \<Rightarrow> failed [] out (prefix @ error) []
                | Inr fileContent \<Rightarrow>
                    let command = PutObjectCommand (argv ''bucket'') key fileContent
                                    (getContentType filePath)
                    in case send w region command of
                         Inl error \<Rightarrow> failed [(region, command)] out (prefix @ error) []
                       | Inr response \<Rightarrow>
                           succeeded [(region, command)]
                             (out @ [''File '' @ quoted filePath @ '' uploaded successfully to '' @
                                     quoted (js_str (argv ''bucket'') @ ''/'' @ key) @ ''.''])
                             [])"

definition downloadFile :: "world \<Rightarrow> argv \<Rightarrow> result" where
  "downloadFile w argv =
     (let region = argv ''region'';
          out = [getS3Client_log region];
          prefix = ''Error downloading file: '';
          command = GetObjectCommand (argv ''bucket'') (argv ''key'');
          calls = [(region, command)]
      in case send w region command of
           Inl error \<Rightarrow> failed calls out (prefix @ error) []
         | Inr response \<Rightarrow>
             (case Body response of
                None \<Rightarrow> failed calls out (prefix @ ''Error: Empty response body'') []
              | Some body \<Rightarrow>
                  (case (if truthy (argv ''output'') then argv ''output''
                         else map_option basename (argv ''key'')) of
                     None \<Rightarrow> failed calls out (prefix @ path_TypeError) []
                   | Some outputPath \<Rightarrow>
                       (case pipeline w outputPath body of
                          Some error \<Rightarrow> failed calls out (prefix @ error) [outputPath]
                        | None \<Rightarrow>
                            succeeded calls
                              (out @ [''File downloaded successfully to '' @
                                      quoted outputPath @ ''.''])
                              [outputPath]))))"

definition deleteFile :: "world \<Rightarrow> argv \<Rightarrow> result" where
  "deleteFile w argv =
     (let region = argv ''region'';
          out = [getS3Client_log region];
          command = DeleteObjectCommand (argv ''bucket'') (argv ''key'')
      in case send w region command of
           Inl error \<Rightarrow> failed [(region, command)] out (''Error deleting file: '' @ error) []
         | Inr response \<Rightarrow>
             succeeded [(region, command)]
               (out @ [''File '' @ quoted (js_str (argv ''key'')) @
                       '' deleted successfully from bucket '' @
                       quoted (js_str (argv ''bucket'')) @ ''.''])
               [])"

section \<open>The command dispatcher\<close>

text \<open>
  The source hands the command line to yargs.  An invocation is the command line as yargs
  reads it: the tokens that are not options (\<open>argv._\<close>), the options given with their
  values (all options of the program are declared \<open>type: "string"\<close>), and whether
  \<open>--help\<close> or \<open>--version\<close> (or their aliases \<open>-h\<close> and \<open>-v\<close>) is present.
\<close>

record invocation =
  positional :: "string list"
  options :: argv
  help_flag :: bool
  version_flag :: bool

text \<open>The two global options carry a default.\<close>

definition option_defaults :: "(string \<times> string) list" where
  "option_defaults = [(''region'', ''us-east-1''), (''env-file'', ''.env'')]"

definition yargs_argv :: "argv \<Rightarrow> argv" where
  "yargs_argv given = map_of option_defaults ++ given"

text \<open>The commands registered with \<open>.command(name, description, builder, handler)\<close>, each
  with the options its builder marks \<open>demandOption: true\<close> and with its handler.\<close>

definition commands :: "(string \<times> string list \<times> (world \<Rightarrow> argv \<Rightarrow> result)) list" where
  "commands =
     [(''list-buckets'', [], listBuckets),
      (''get-bucket-region'', [''name''], getBucketRegion),
      (''create-bucket'', [''name''], createBucket),
      (''delete-bucket'', [''name''], deleteBucket),
      (''list-files'', [''bucket''], listFiles),
      (''upload-file'', [''bucket'', ''file''], uploadFile),
      (''download-file'', [''bucket'', ''key''], downloadFile),
      (''delete-file'', [''bucket'', ''key''], deleteFile)]"

text \<open>The first line of the help screen, set by \<open>.usage\<close>; the rest of the screen that
  yargs generates is left out.  The version line stands for the version of the package.\<close>

definition usage_line :: string where
  "usage_line = ''Usage: $0 <command> [options]''"

definition version_line :: string where
  "version_line = ''version''"

fun join :: "string \<Rightarrow> string list \<Rightarrow> string" where
  "join sep [] = []"
| "join sep [x] = x"
| "join sep (x # y # ys) = x @ sep @ join sep (y # ys)"

text \<open>The failure message of yargs for demanded options that are absent.\<close>

definition missing_message :: "string list \<Rightarrow> string" where
  "missing_message missing =
     (if length missing = 1 then ''Missing required argument: ''
      else ''Missing required arguments: '') @ join '', '' missing"

definition quiet :: "nat \<Rightarrow> string list \<Rightarrow> string list \<Rightarrow> result" where
  "quiet code out err =
     \<lparr>exit_code = code, api_calls = [], stdout = out, stderr = err, files_opened = []\<rparr>"

text \<open>
  What yargs does with the configuration of the source:
  \<^item> \<open>.help()\<close> and \<open>.version()\<close>: with \<open>--help\<close> the help screen is printed, with
    \<open>--version\<close> the version, and the process exits with code 0; nothing is validated
    and no handler runs;
  \<^item> \<open>.demandCommand(1, "You need to specify a command")\<close>: with no token that is not an
    option, the help screen and this message go to standard error and the process exits
    with code 1;
  \<^item> when the first such token names a registered command, the options it demands are
    checked; when one is absent, the help screen and the message go to standard error
    and the process exits with code 1; otherwise its handler runs;
  \<^item> when the first such token names no registered command, \<open>.demandCommand(1)\<close> is
    satisfied by the token, and since the source does not turn on strict mode nothing
    rejects it: no handler runs, nothing is printed and the process ends with code 0.
\<close>

definition run_cli :: "world \<Rightarrow> invocation \<Rightarrow> result" where
  "run_cli w line =
     (if help_flag line then quiet 0 [usage_line] []
      else if version_flag line then quiet 0 [version_line] []
      else case positional line of
             [] \<Rightarrow> quiet 1 [] [usage_line, ''You need to specify a command'']
           | name # rest \<Rightarrow>
               (case map_of commands name of
                  None \<Rightarrow> quiet 0 [] []
                | Some (demanded, handler) \<Rightarrow>
                    let argv = yargs_argv (options line);
                        missing = filter (\<lambda>key. argv key = None) demanded
                    in if missing \<noteq> [] then quiet 1 [] [usage_line, missing_message missing]
                       else handler w argv))"

section \<open>Properties of the path functions\<close>

lemma toLowerChar_dot: "is_dot (toLowerChar c) = is_dot c"
  by (auto simp: toLowerChar_def is_dot_def split: option.splits if_splits)

lemma toLowerChar_slash: "is_slash (toLowerChar c) = is_slash c"
  by (auto simp: toLowerChar_def is_slash_def split: option.splits if_splits)

lemma toLowerChar_idem: "toLowerChar (toLowerChar c) = toLowerChar c"
  by (auto simp: toLowerChar_def split: option.splits if_splits)

lemma toLowerCase_idem: "toLowerCase (toLowerCase s) = toLowerCase s"
  by (simp add: toLowerCase_def toLowerChar_idem)

text \<open>A path is its directories, its last portion and its trailing slashes.\<close>

lemma basename_compose:
  assumes t: "\<forall>c \<in> set t. is_slash c"
    and b: "\<forall>c \<in> set b. \<not> is_slash c"
    and bne: "b \<noteq> []"
    and d: "d = [] \<or> is_slash (last d)"
  shows "basename (d @ b @ t) = b"
proof -
  have 1: "dropWhile is_slash (rev t @ rev b @ rev d) = rev b @ rev d"
    using t b bne by (cases "rev b") (auto simp: dropWhile_append)
  have 2: "takeWhile (\<lambda>c. \<not> is_slash c) (rev b @ rev d) = rev b"
    using b d by (cases d rule: rev_cases) (auto simp: takeWhile_append)
  show ?thesis by (simp add: basename_def 1 2)
qed

lemma basename_decompose:
  assumes "basename p \<noteq> []"
  shows "\<exists>d t. p = d @ basename p @ t \<and> (\<forall>c \<in> set t. is_slash c)
     \<and> (\<forall>c \<in> set (basename p). \<not> is_slash c) \<and> (d = [] \<or> is_slash (last d))
     \<and> t = rev (takeWhile is_slash (rev p))"
proof -
  let ?t = "takeWhile is_slash (rev p)"
  let ?r = "dropWhile is_slash (rev p)"
  let ?b = "takeWhile (\<lambda>c. \<not> is_slash c) ?r"
  let ?d = "dropWhile (\<lambda>c. \<not> is_slash c) ?r"
  have "rev p = ?t @ ?b @ ?d" by simp
  then have "rev (rev p) = rev (?t @ ?b @ ?d)" by (rule arg_cong)
  then have "p = rev ?d @ rev ?b @ rev ?t"
    by (simp only: rev_rev_ident rev_append append_assoc)
  moreover have "\<forall>c \<in> set (rev ?t). is_slash c"
    by (auto dest: set_takeWhileD)
  moreover have "\<forall>c \<in> set (rev ?b). \<not> is_slash c"
    by (auto dest: set_takeWhileD)
  moreover have "rev ?d = [] \<or> is_slash (last (rev ?d))"
  proof (cases ?d)
    case Nil
    then show ?thesis by simp
  next
    case (Cons x xs)
    then have "?d \<noteq> []" by simp
    then have "\<not> \<not> is_slash (hd ?d)" by (rule hd_dropWhile)
    then show ?thesis using Cons by (simp add: last_rev)
  qed
  ultimately show ?thesis unfolding basename_def by blast
qed

text \<open>The last portion is a stem, a dot and an extension without a dot.\<close>

lemma extname_of_base_compose:
  assumes s: "s \<noteq> []" and e: "\<forall>c \<in> set e. \<not> is_dot c" and n: "\<not> (s = ''.'' \<and> e = [])"
  shows "extname_of_base (s @ CHR ''.'' # e) = CHR ''.'' # e"
proof -
  have 1: "takeWhile (\<lambda>c. \<not> is_dot c) (rev e @ CHR ''.'' # rev s) = rev e"
    using e by (simp add: takeWhile_append is_dot_def)
  have 2: "list_ex is_dot (s @ CHR ''.'' # e)" by (simp add: is_dot_def)
  have 3: "s @ CHR ''.'' # e \<noteq> ''..''" using n s
    by (cases s) (auto simp: append_eq_Cons_conv Cons_eq_append_conv)
  show ?thesis using s 2 3 by (simp add: extname_of_base_def Let_def 1)
qed

lemma extname_of_base_decompose:
  assumes "extname_of_base b \<noteq> []"
  shows "\<exists>s e. b = s @ CHR ''.'' # e \<and> s \<noteq> [] \<and> (\<forall>c \<in> set e. \<not> is_dot c)
    \<and> \<not> (s = ''.'' \<and> e = []) \<and> extname_of_base b = CHR ''.'' # e"
proof -
  let ?e = "takeWhile (\<lambda>c. \<not> is_dot c) (rev b)"
  let ?r = "dropWhile (\<lambda>c. \<not> is_dot c) (rev b)"
  from assms have ex: "list_ex is_dot b" and nd: "b \<noteq> ''..''"
    and st: "take (length b - length ?e - 1) b \<noteq> []"
    by (auto simp: extname_of_base_def Let_def split: if_splits)
  from ex have "?r \<noteq> []" by (auto simp: list_ex_iff)
  then obtain x r' where r: "?r = x # r'" by (cases ?r) auto
  then have x: "x = CHR ''.''" using hd_dropWhile[of "\<lambda>c. \<not> is_dot c" "rev b"]
    by (auto simp: is_dot_def)
  have "rev b = ?e @ ?r" by simp
  then have "rev b = ?e @ CHR ''.'' # r'" using r x by simp
  then have "rev (rev b) = rev (?e @ CHR ''.'' # r')" by (rule arg_cong)
  then have b: "b = rev r' @ CHR ''.'' # rev ?e"
    by (simp only: rev_rev_ident rev_append rev.simps append_assoc append_Cons append_Nil)
  have len: "length b = length r' + 1 + length ?e" using arg_cong[OF b, of length] by simp
  have "length b - length ?e - 1 = length r'" using len by simp
  with st have s: "rev r' \<noteq> []" by auto
  have e: "\<forall>c \<in> set (rev ?e). \<not> is_dot c" by (auto dest: set_takeWhileD)
  have n: "\<not> (rev r' = ''.'' \<and> rev ?e = [])" using nd b by auto
  have "extname_of_base b = CHR ''.'' # rev ?e" using assms
    by (auto simp: extname_of_base_def Let_def split: if_splits)
  with b s e n show ?thesis by blast
qed

lemma extname_lowercase_extension:
  "extname (lowercase_extension p) = toLowerCase (extname p)"
proof (cases "extname p = []")
  case True
  then show ?thesis by (simp add: lowercase_extension_def toLowerCase_def Let_def)
next
  case False
  then have be: "extname_of_base (basename p) \<noteq> []" by (simp add: extname_def)
  then have bn: "basename p \<noteq> []" by (auto simp: extname_of_base_def)
  from basename_decompose[OF bn] obtain d t where
    p: "p = d @ basename p @ t" and t: "\<forall>c \<in> set t. is_slash c"
    and b: "\<forall>c \<in> set (basename p). \<not> is_slash c" and d: "d = [] \<or> is_slash (last d)"
    and tt: "t = rev (takeWhile is_slash (rev p))" by blast
  from extname_of_base_decompose[OF be] obtain s e where
    bs: "basename p = s @ CHR ''.'' # e" and s: "s \<noteq> []" and e: "\<forall>c \<in> set e. \<not> is_dot c"
    and n: "\<not> (s = ''.'' \<and> e = [])" and ex: "extname_of_base (basename p) = CHR ''.'' # e"
    by blast
  have en: "extname p = CHR ''.'' # e" using ex by (simp add: extname_def)
  have pp: "p = (d @ s) @ (CHR ''.'' # e) @ t" using p bs by simp
  have lt: "length (takeWhile is_slash (rev p)) = length t" using tt by simp
  have lp: "length p = length (d @ s) + length (CHR ''.'' # e) + length t"
    using arg_cong[OF pp, of length] by simp
  have n1: "length p - length t - length (CHR ''.'' # e) = length (d @ s)" using lp by simp
  have tk: "take (length (d @ s)) p = d @ s"
    by (subst pp) simp
  have dr: "drop (length (d @ s) + length (CHR ''.'' # e)) p = t"
    by (subst pp) simp
  have le: "lowercase_extension p = d @ (s @ CHR ''.'' # toLowerCase e) @ t"
    unfolding lowercase_extension_def Let_def lt en n1 tk dr
    by (simp add: toLowerCase_def toLowerChar_def)
  have b': "\<forall>c \<in> set (s @ CHR ''.'' # toLowerCase e). \<not> is_slash c"
    using b bs by (auto simp: toLowerCase_def toLowerChar_slash)
  have e': "\<forall>c \<in> set (toLowerCase e). \<not> is_dot c"
    using e by (auto simp: toLowerCase_def toLowerChar_dot)
  have n': "\<not> (s = ''.'' \<and> toLowerCase e = [])" using n by (simp add: toLowerCase_def)
  have "basename (lowercase_extension p) = s @ CHR ''.'' # toLowerCase e"
    unfolding le by (rule basename_compose[OF t b' _ d]) simp
  then have "extname (lowercase_extension p) = CHR ''.'' # toLowerCase e"
    by (simp add: extname_def extname_of_base_compose[OF s e' n'])
  then show ?thesis using en by (simp add: toLowerCase_def toLowerChar_def)
qed

lemmas path_eval = extname_def extname_of_base_def basename_def is_slash_def is_dot_def
  toLowerCase_def toLowerChar_def Let_def

section \<open>Properties of the content types\<close>

lemma contentTypes_keys_lower:
  "map_of contentTypes e = Some m \<Longrightarrow> toLowerCase e = e \<and> m \<noteq> []"
  by (auto simp: contentTypes_def toLowerCase_def toLowerChar_def split: if_splits)

lemma getContentType_lookup:
  "getContentType p =
     (case map_of contentTypes (toLowerCase (extname p)) of
        Some t \<Rightarrow> t | None \<Rightarrow> ''application/octet-stream'')"
  by (auto simp: getContentType_def Let_def split: option.splits
      dest: contentTypes_keys_lower)

text \<open>
  Claim C6, as amended.  A path whose extension is a key of the table gets the mapped
  type, and so does a path whose lower-cased extension is a key; a path whose
  lower-cased extension is not a key gets \<open>application/octet-stream\<close>.  In particular
  a path with the extension \<open>.json\<close> gets \<open>application/json\<close>.
\<close>

theorem getContentType_table:
  "(map_of contentTypes (extname p) = Some m \<longrightarrow> getContentType p = m) \<and>
   (map_of contentTypes (toLowerCase (extname p)) = Some m \<longrightarrow> getContentType p = m) \<and>
   (map_of contentTypes (toLowerCase (extname p)) = None \<longrightarrow>
      getContentType p = ''application/octet-stream'') \<and>
   (extname p = ''.json'' \<longrightarrow> getContentType p = ''application/json'')"
proof (intro conjI impI)
  assume a: "map_of contentTypes (extname p) = Some m"
  then have "toLowerCase (extname p) = extname p" by (simp add: contentTypes_keys_lower)
  with a show "getContentType p = m" by (simp add: getContentType_lookup)
next
  assume "map_of contentTypes (toLowerCase (extname p)) = Some m"
  then show "getContentType p = m" by (simp add: getContentType_lookup)
next
  assume "map_of contentTypes (toLowerCase (extname p)) = None"
  then show "getContentType p = ''application/octet-stream''"
    by (simp add: getContentType_lookup)
next
  assume "extname p = ''.json''"
  then show "getContentType p = ''application/json''"
    by (simp add: getContentType_lookup contentTypes_def toLowerCase_def toLowerChar_def)
qed

theorem getContentType_table_witness:
  "map_of contentTypes (extname ''data/report.json'') = Some ''application/json'' \<and>
   getContentType ''data/report.json'' = ''application/json'' \<and>
   map_of contentTypes (toLowerCase (extname ''backup.tar.gz'')) = None \<and>
   getContentType ''backup.tar.gz'' = ''application/octet-stream''"
proof -
  have h1: "map_of contentTypes (extname ''data/report.json'') = Some ''application/json''"
    by (simp add: path_eval contentTypes_def)
  have h2: "map_of contentTypes (toLowerCase (extname ''backup.tar.gz'')) = None"
    by (simp add: path_eval contentTypes_def)
  note t1 = getContentType_table[of "''data/report.json''" "''application/json''"]
  note t2 = getContentType_table[of "''backup.tar.gz''" "[]"]
  have r1: "getContentType ''data/report.json'' = ''application/json''"
    using conjunct1[OF t1] h1 by (rule mp)
  have r2: "getContentType ''backup.tar.gz'' = ''application/octet-stream''"
    using conjunct1[OF conjunct2[OF conjunct2[OF t2]]] h2 by (rule mp)
  from h1 r1 h2 r2 show ?thesis by (intro conjI)
qed

text \<open>The claim as stated fails: the extension \<open>.JSON\<close> is not a key of the table, and
  the path does not get the default type.\<close>

theorem getContentType_default_counterexample:
  "extname ''a.JSON'' = ''.JSON'' \<and>
   map_of contentTypes (extname ''a.JSON'') = None \<and>
   getContentType ''a.JSON'' = ''application/json'' \<and>
   getContentType ''a.JSON'' \<noteq> ''application/octet-stream''"
  by (simp add: getContentType_def path_eval contentTypes_def)

text \<open>
  Claim C10.  The content type of a path is the content type of the path with its
  extension lower-cased; the extension of that path is the lower-cased extension.  A
  path with the extension \<open>.JSON\<close> gets \<open>application/json\<close>.
\<close>

theorem getContentType_case_insensitive:
  "getContentType p = getContentType (lowercase_extension p) \<and>
   extname (lowercase_extension p) = toLowerCase (extname p) \<and>
   (extname p = ''.JSON'' \<longrightarrow> getContentType p = ''application/json'')"
proof (intro conjI impI)
  show "getContentType p = getContentType (lowercase_extension p)"
    by (simp add: getContentType_def extname_lowercase_extension toLowerCase_idem)
  show "extname (lowercase_extension p) = toLowerCase (extname p)"
    by (rule extname_lowercase_extension)
next
  assume "extname p = ''.JSON''"
  then show "getContentType p = ''application/json''"
    by (simp add: getContentType_lookup contentTypes_def toLowerCase_def toLowerChar_def)
qed

theorem getContentType_case_insensitive_witness:
  "extname ''Data/Report.JSON'' = ''.JSON'' \<and>
   lowercase_extension ''Data/Report.JSON'' = ''Data/Report.json'' \<and>
   getContentType ''Data/Report.JSON'' = ''application/json'' \<and>
   getContentType ''Data/Report.json'' = ''application/json''"
proof -
  note t = getContentType_case_insensitive[of "''Data/Report.JSON''"]
  have h: "extname ''Data/Report.JSON'' = ''.JSON''" by (simp add: path_eval)
  have l: "lowercase_extension ''Data/Report.JSON'' = ''Data/Report.json''"
    by (simp add: lowercase_extension_def path_eval)
  have r1: "getContentType ''Data/Report.JSON'' = ''application/json''"
    using conjunct2[OF conjunct2[OF t]] h by (rule mp)
  have r2: "getContentType ''Data/Report.json'' = ''application/json''"
    using conjunct1[OF t] r1 by (simp only: l)
  from h l r1 r2 show ?thesis by (intro conjI)
qed

section \<open>Properties of the byte-size formatting\<close>

lemma exact_floor_log_small: "n < k \<Longrightarrow> exact_floor_log n k = 0"
  by (simp add: exact_floor_log.simps)

lemma exact_floor_log_step:
  "1 < k \<Longrightarrow> k \<le> n \<Longrightarrow> exact_floor_log n k = Suc (exact_floor_log (n div k) k)"
  by (subst exact_floor_log.simps) simp






lemma show_nat_small: "n < 10 \<Longrightarrow> show_nat n = [digit_char n]"
  by (simp add: show_nat.simps)

lemma show_nat_step: "10 \<le> n \<Longrightarrow> show_nat n = show_nat (n div 10) @ [digit_char (n mod 10)]"
  by (subst show_nat.simps) simp




lemmas formatBytes_eval = formatBytes_def exact_floor_log_small exact_floor_log_step
  toFixed_digits_def show_fixed_def show_nat_small show_nat_step size_name_def sizes_def
  digit_char_def Let_def





text \<open>Some renderings, for byte counts at which the index is the exact logarithm.\<close>

lemma formatBytes_examples:
  "formatBytes exact_floor_log 1023 2 = ''1023 Bytes''"
  "formatBytes exact_floor_log 1024 2 = ''1 KB''"
  "formatBytes exact_floor_log 1536 2 = ''1.5 KB''"
  "formatBytes exact_floor_log 1048575 2 = ''1024 KB''"
  "formatBytes exact_floor_log 123456789 2 = ''117.74 MB''"
  by (simp_all add: formatBytes_eval)

text \<open>
  The index of the program is not always the exact logarithm.  For \<open>2^50 - 1\<close> the exact
  logarithm is 4, while the quotient of the two double-precision logarithms is 5: with
  the index 5 the program prints \<open>1 PB\<close>, where the exact index would give \<open>1024 TB\<close>.
\<close>

lemma formatBytes_index_above_exact:
  "exact_floor_log (2 ^ 50 - 1) 1024 = 4 \<and>
   formatBytes (\<lambda>bytes k. 5) (2 ^ 50 - 1) 2 = ''1 PB'' \<and>
   formatBytes exact_floor_log (2 ^ 50 - 1) 2 = ''1024 TB''"
  by (simp add: formatBytes_eval)






section \<open>Properties of the environment loading\<close>

lemma indexOf_ge: "- 1 \<le> indexOf xs x"
  by (induction xs) (auto simp: Let_def)

lemma indexOf_first:
  "i < length xs \<Longrightarrow> xs ! i = x \<Longrightarrow> \<forall>j<i. xs ! j \<noteq> x \<Longrightarrow> indexOf xs x = int i"
proof (induction xs arbitrary: i)
  case Nil
  then show ?case by simp
next
  case (Cons y ys)
  show ?case
  proof (cases i)
    case 0
    with Cons.prems show ?thesis by simp
  next
    case (Suc i')
    with Cons.prems have ne: "y \<noteq> x" by auto
    from Suc Cons.prems have "i' < length ys" "ys ! i' = x" "\<forall>j<i'. ys ! j \<noteq> x" by auto
    then have "indexOf ys x = int i'" by (rule Cons.IH)
    with ne Suc show ?thesis by (simp add: Let_def)
  qed
qed

lemma dotenv_config_map_add: "dotenv_config files path e = file_vars files path ++ e"
  by (auto simp: dotenv_config_def file_vars_def map_add_def fun_eq_iff split: option.splits)

text \<open>
  Claim C1, as amended.  When \<open>process.argv\<close> holds the token \<open>--env-file\<close> and its first
  occurrence is followed by another token, the file named by that token is loaded after
  the default file \<open>.env\<close>.  A variable keeps the value of the environment the process
  started with, else it gets the value of the default file, else the value of the named
  file: of two files that define a variable, the one loaded first wins.
\<close>

theorem load_environment_precedence:
  assumes "i < length process_argv"
    and "process_argv ! i = ''--env-file''"
    and "\<forall>j<i. process_argv ! j \<noteq> ''--env-file''"
    and "i + 1 < length process_argv"
  shows "load_environment files process_argv env0 =
           (dotenv_config files (process_argv ! (i + 1)) (dotenv_config files ''.env'' env0),
            [''Loaded environment from: '' @ process_argv ! (i + 1)]) \<and>
         fst (load_environment files process_argv env0) =
           file_vars files (process_argv ! (i + 1)) ++ file_vars files ''.env'' ++ env0"
proof -
  have mem: "''--env-file'' \<in> set process_argv" using assms(1,2) by (metis nth_mem)
  have idx: "indexOf process_argv ''--env-file'' = int i"
    using assms(1,2,3) by (rule indexOf_first)
  have n: "nat (int i + 1) = i + 1" by simp
  have 1: "load_environment files process_argv env0 =
           (dotenv_config files (process_argv ! (i + 1)) (dotenv_config files ''.env'' env0),
            [''Loaded environment from: '' @ process_argv ! (i + 1)])"
    using assms(4) by (simp add: load_environment_def mem idx n Let_def)
  show ?thesis unfolding 1 by (simp add: dotenv_config_map_add)
qed

theorem load_environment_precedence_witness:
  "fst (load_environment
         (\<lambda>p. if p = ''.env'' then Some [''A'' \<mapsto> ''1'', ''B'' \<mapsto> ''2'']
              else if p = ''custom.env'' then Some [''B'' \<mapsto> ''3'', ''C'' \<mapsto> ''4''] else None)
         [''node'', ''aws-s3-cli.js'', ''--env-file'', ''custom.env'', ''list-buckets'']
         [''A'' \<mapsto> ''0'']) =
     [''C'' \<mapsto> ''4'', ''B'' \<mapsto> ''2'', ''A'' \<mapsto> ''0'']"
proof -
  let ?argv = "[''node'', ''aws-s3-cli.js'', ''--env-file'', ''custom.env'', ''list-buckets'']"
  let ?files = "\<lambda>p. if p = ''.env'' then Some [''A'' \<mapsto> ''1'', ''B'' \<mapsto> ''2'']
              else if p = ''custom.env'' then Some [''B'' \<mapsto> ''3'', ''C'' \<mapsto> ''4''] else None"
  have 1: "(2::nat) < length ?argv" by simp
  have 2: "?argv ! 2 = ''--env-file''" by simp
  have 3: "\<forall>j<2. ?argv ! j \<noteq> ''--env-file''" by (simp add: less_Suc_eq numeral_2_eq_2)
  have 4: "(2::nat) + 1 < length ?argv" by simp
  have "fst (load_environment ?files ?argv [''A'' \<mapsto> ''0'']) =
          file_vars ?files (?argv ! (2 + 1)) ++ file_vars ?files ''.env'' ++ [''A'' \<mapsto> ''0'']"
    using load_environment_precedence[OF 1 2 3 4, of ?files "[''A'' \<mapsto> ''0'']"] by (rule conjunct2)
  also have "\<dots> = [''C'' \<mapsto> ''4'', ''B'' \<mapsto> ''2'', ''A'' \<mapsto> ''0'']"
    by (auto simp: file_vars_def map_add_def fun_eq_iff)
  finally show ?thesis .
qed

text \<open>The claim as stated fails: a variable defined in both files ends with the value of
  the default file.\<close>

theorem load_environment_last_wins_counterexample:
  "fst (load_environment
         (\<lambda>p. if p = ''.env'' then Some [''AWS_ACCESS_KEY_ID'' \<mapsto> ''default-key'']
              else if p = ''custom.env'' then Some [''AWS_ACCESS_KEY_ID'' \<mapsto> ''custom-key'']
              else None)
         [''node'', ''aws-s3-cli.js'', ''--env-file'', ''custom.env'', ''list-buckets'']
         Map.empty) ''AWS_ACCESS_KEY_ID'' = Some ''default-key''"
  by (simp add: load_environment_def dotenv_config_def Let_def)

section \<open>Properties of the dispatcher and the handlers\<close>

lemma yargs_argv_given: "given k = Some v \<Longrightarrow> yargs_argv given k = Some v"
  by (simp add: yargs_argv_def map_add_def)

lemma yargs_argv_absent:
  "given k = None \<Longrightarrow> map_of option_defaults k = None \<Longrightarrow> yargs_argv given k = None"
  by (simp add: yargs_argv_def map_add_def)




text \<open>No demanded option has a default.\<close>

lemma demanded_no_default:
  "map_of commands name = Some (demanded, handler) \<Longrightarrow> k \<in> set demanded \<Longrightarrow>
   map_of option_defaults k = None"
  by (auto simp: commands_def option_defaults_def split: if_splits)

lemma run_cli_missing:
  assumes "\<not> help_flag line" and "\<not> version_flag line"
    and "positional line = name # rest"
    and "map_of commands name = Some (demanded, handler)"
    and "k \<in> set demanded" and "options line k = None"
  shows "run_cli w line =
           quiet 1 [] [usage_line,
             missing_message (filter (\<lambda>key. yargs_argv (options line) key = None) demanded)]"
proof -
  have "yargs_argv (options line) k = None"
    using assms(6) demanded_no_default[OF assms(4,5)] by (rule yargs_argv_absent)
  with assms(5) have "k \<in> set (filter (\<lambda>key. yargs_argv (options line) key = None) demanded)"
    by simp
  then have "filter (\<lambda>key. yargs_argv (options line) key = None) demanded \<noteq> []"
    by (metis empty_iff empty_set)
  with assms(1-4) show ?thesis by (simp add: run_cli_def Let_def)
qed

lemma run_cli_handler:
  assumes "\<not> help_flag line" and "\<not> version_flag line"
    and "positional line = name # rest"
    and "map_of commands name = Some (demanded, handler)"
    and "\<forall>k \<in> set demanded. options line k \<noteq> None"
  shows "run_cli w line = handler w (yargs_argv (options line))"
proof -
  have "\<forall>k \<in> set demanded. yargs_argv (options line) k \<noteq> None"
    using assms(5) by (auto simp: yargs_argv_def map_add_def split: option.splits)
  then have "filter (\<lambda>key. yargs_argv (options line) key = None) demanded = []"
    by (simp add: filter_empty_conv)
  with assms(1-4) show ?thesis by (simp add: run_cli_def Let_def)
qed


lemma getBucketRegion_calls:
  "api_calls (getBucketRegion w argv) =
     [(Some ''us-east-1'', GetBucketLocationCommand (argv ''name''))]"
  by (simp add: getBucketRegion_def Let_def succeeded_def failed_def split: sum.splits)



text \<open>
  Claim C4.  A \<open>get-bucket-region\<close> invocation sends one command, through a client bound
  to \<open>us-east-1\<close> whatever \<open>--region\<close> is; when the answer carries no location constraint
  or an empty one, the command reports the region \<open>us-east-1\<close> and succeeds.
\<close>

theorem getBucketRegion_fixed_region:
  assumes "\<not> help_flag line" and "\<not> version_flag line"
    and "positional line = ''get-bucket-region'' # rest"
    and "options line ''name'' = Some bucket"
  shows "api_calls (run_cli w line) =
           [(Some ''us-east-1'', GetBucketLocationCommand (Some bucket))] \<and>
         (\<forall>response.
            send w (Some ''us-east-1'') (GetBucketLocationCommand (Some bucket)) = Inr response \<and>
            (LocationConstraint response = None \<or> LocationConstraint response = Some []) \<longrightarrow>
            exit_code (run_cli w line) = 0 \<and>
            stdout (run_cli w line) =
              [''Checking region for bucket: '' @ bucket,
               ''Bucket '' @ quoted bucket @ '' is in region: us-east-1''])"
proof -
  have c: "map_of commands ''get-bucket-region'' = Some ([''name''], getBucketRegion)"
    by (simp add: commands_def)
  have d: "\<forall>k \<in> set [''name'']. options line k \<noteq> None" using assms(4) by simp
  have run: "run_cli w line = getBucketRegion w (yargs_argv (options line))"
    using assms(1-3) c d by (rule run_cli_handler)
  have n: "yargs_argv (options line) ''name'' = Some bucket"
    using assms(4) by (rule yargs_argv_given)
  have 1: "api_calls (run_cli w line) =
           [(Some ''us-east-1'', GetBucketLocationCommand (Some bucket))]"
    by (simp add: run getBucketRegion_calls n)
  have 2: "exit_code (run_cli w line) = 0 \<and>
           stdout (run_cli w line) =
             [''Checking region for bucket: '' @ bucket,
              ''Bucket '' @ quoted bucket @ '' is in region: us-east-1'']"
    if "send w (Some ''us-east-1'') (GetBucketLocationCommand (Some bucket)) = Inr response"
      and "LocationConstraint response = None \<or> LocationConstraint response = Some []"
    for response
    using that by (auto simp: run getBucketRegion_def n Let_def succeeded_def)
  from 1 2 show ?thesis by blast
qed

theorem getBucketRegion_fixed_region_witness:
  "api_calls
     (run_cli
        \<lparr>send = (\<lambda>region command.
                   Inr \<lparr>Buckets = None, LocationConstraint = Some [], Contents = None,
                        Body = None\<rparr>),
         readFileSync = (\<lambda>path. Inl ''ENOENT''), pipeline = (\<lambda>path body. None),
         floor_log_quotient = (\<lambda>bytes k. 0)\<rparr>
        \<lparr>positional = [''get-bucket-region''],
         options = [''name'' \<mapsto> ''X'', ''region'' \<mapsto> ''eu-west-1''],
         help_flag = False, version_flag = False\<rparr>) =
     [(Some ''us-east-1'', GetBucketLocationCommand (Some ''X''))] \<and>
   stdout
     (run_cli
        \<lparr>send = (\<lambda>region command.
                   Inr \<lparr>Buckets = None, LocationConstraint = Some [], Contents = None,
                        Body = None\<rparr>),
         readFileSync = (\<lambda>path. Inl ''ENOENT''), pipeline = (\<lambda>path body. None),
         floor_log_quotient = (\<lambda>bytes k. 0)\<rparr>
        \<lparr>positional = [''get-bucket-region''],
         options = [''name'' \<mapsto> ''X'', ''region'' \<mapsto> ''eu-west-1''],
         help_flag = False, version_flag = False\<rparr>) =
     [''Checking region for bucket: X'', ''Bucket '' @ quoted ''X'' @ '' is in region: us-east-1'']"
proof -
  let ?resp = "\<lparr>Buckets = None, LocationConstraint = Some [], Contents = None, Body = None\<rparr>"
  let ?w = "\<lparr>send = (\<lambda>region command. Inr ?resp),
             readFileSync = (\<lambda>path. Inl ''ENOENT''), pipeline = (\<lambda>path body. None),
         floor_log_quotient = (\<lambda>bytes k. 0)\<rparr>"
  let ?l = "\<lparr>positional = [''get-bucket-region''],
             options = [''name'' \<mapsto> ''X'', ''region'' \<mapsto> ''eu-west-1''],
             help_flag = False, version_flag = False\<rparr>"
  have a1: "\<not> help_flag ?l" and a2: "\<not> version_flag ?l"
    and a3: "positional ?l = ''get-bucket-region'' # []"
    and a4: "options ?l ''name'' = Some ''X''" by simp_all
  note t = getBucketRegion_fixed_region[OF a1 a2 a3 a4, of ?w]
  from t have 1: "api_calls (run_cli ?w ?l) =
      [(Some ''us-east-1'', GetBucketLocationCommand (Some ''X''))]"
    by (rule conjunct1)
  from t have "\<forall>response.
      send ?w (Some ''us-east-1'') (GetBucketLocationCommand (Some ''X'')) = Inr response \<and>
      (LocationConstraint response = None \<or> LocationConstraint response = Some []) \<longrightarrow>
      exit_code (run_cli ?w ?l) = 0 \<and>
      stdout (run_cli ?w ?l) =
        [''Checking region for bucket: '' @ ''X'',
         ''Bucket '' @ quoted ''X'' @ '' is in region: us-east-1'']"
    by (rule conjunct2)
  then have "send ?w (Some ''us-east-1'') (GetBucketLocationCommand (Some ''X'')) = Inr ?resp \<and>
      (LocationConstraint ?resp = None \<or> LocationConstraint ?resp = Some []) \<longrightarrow>
      exit_code (run_cli ?w ?l) = 0 \<and>
      stdout (run_cli ?w ?l) =
        [''Checking region for bucket: '' @ ''X'',
         ''Bucket '' @ quoted ''X'' @ '' is in region: us-east-1'']"
    by (rule spec)
  moreover
  have "send ?w (Some ''us-east-1'') (GetBucketLocationCommand (Some ''X'')) = Inr ?resp \<and>
      (LocationConstraint ?resp = None \<or> LocationConstraint ?resp = Some [])"
    by simp
  ultimately have 2: "exit_code (run_cli ?w ?l) = 0 \<and>
      stdout (run_cli ?w ?l) =
        [''Checking region for bucket: '' @ ''X'',
         ''Bucket '' @ quoted ''X'' @ '' is in region: us-east-1'']"
    by (rule mp)
  from 1 2 show ?thesis by simp
qed

text \<open>
  Claim C5, as amended.  Without \<open>--help\<close> and \<open>--version\<close>: an invocation with no
  command, and an invocation of a registered command that omits an option the command
  demands, print a usage error, exit with code 1 and send nothing; an invocation whose
  command is not registered sends nothing, and ends with exit code 0 and no usage error.
  The demanded options are those of the table of the interface.
\<close>

theorem dispatcher_usage_errors:
  assumes "\<not> help_flag line" and "\<not> version_flag line"
  shows "map (\<lambda>(name, demanded, handler). (name, demanded)) commands =
           [(''list-buckets'', []), (''get-bucket-region'', [''name'']),
            (''create-bucket'', [''name'']), (''delete-bucket'', [''name'']),
            (''list-files'', [''bucket'']), (''upload-file'', [''bucket'', ''file'']),
            (''download-file'', [''bucket'', ''key'']),
            (''delete-file'', [''bucket'', ''key''])] \<and>
         (positional line = [] \<longrightarrow>
            exit_code (run_cli w line) = 1 \<and> api_calls (run_cli w line) = [] \<and>
            stderr (run_cli w line) = [usage_line, ''You need to specify a command'']) \<and>
         (\<forall>name rest demanded handler k.
            positional line = name # rest \<and> map_of commands name = Some (demanded, handler) \<and>
            k \<in> set demanded \<and> options line k = None \<longrightarrow>
            exit_code (run_cli w line) = 1 \<and> api_calls (run_cli w line) = [] \<and>
            (\<exists>message. stderr (run_cli w line) = [usage_line, message])) \<and>
         (\<forall>name rest.
            positional line = name # rest \<and> map_of commands name = None \<longrightarrow>
            exit_code (run_cli w line) = 0 \<and> api_calls (run_cli w line) = [] \<and>
            stdout (run_cli w line) = [] \<and> stderr (run_cli w line) = [])"
proof (intro conjI allI impI)
  show "map (\<lambda>(name, demanded, handler). (name, demanded)) commands =
           [(''list-buckets'', []), (''get-bucket-region'', [''name'']),
            (''create-bucket'', [''name'']), (''delete-bucket'', [''name'']),
            (''list-files'', [''bucket'']), (''upload-file'', [''bucket'', ''file'']),
            (''download-file'', [''bucket'', ''key'']),
            (''delete-file'', [''bucket'', ''key''])]"
    by (simp add: commands_def)
next
  assume "positional line = []"
  then have "run_cli w line = quiet 1 [] [usage_line, ''You need to specify a command'']"
    using assms by (simp add: run_cli_def)
  then show "exit_code (run_cli w line) = 1" "api_calls (run_cli w line) = []"
    "stderr (run_cli w line) = [usage_line, ''You need to specify a command'']"
    by (simp_all add: quiet_def)
next
  fix name rest demanded handler k
  assume a: "positional line = name # rest \<and> map_of commands name = Some (demanded, handler) \<and>
            k \<in> set demanded \<and> options line k = None"
  then have "run_cli w line =
           quiet 1 [] [usage_line,
             missing_message (filter (\<lambda>key. yargs_argv (options line) key = None) demanded)]"
    using assms by (intro run_cli_missing[where name = name and rest = rest and k = k]) simp_all
  then show "exit_code (run_cli w line) = 1" "api_calls (run_cli w line) = []"
    "\<exists>message. stderr (run_cli w line) = [usage_line, message]"
    by (simp_all add: quiet_def)
next
  fix name rest
  assume "positional line = name # rest \<and> map_of commands name = None"
  then have "run_cli w line = quiet 0 [] []"
    using assms by (simp add: run_cli_def)
  then show "exit_code (run_cli w line) = 0" "api_calls (run_cli w line) = []"
    "stdout (run_cli w line) = []" "stderr (run_cli w line) = []"
    by (simp_all add: quiet_def)
qed

theorem dispatcher_usage_errors_witness:
  "\<forall>w. exit_code (run_cli w \<lparr>positional = [''upload-file''], options = [''bucket'' \<mapsto> ''B''],
                               help_flag = False, version_flag = False\<rparr>) = 1 \<and>
        api_calls (run_cli w \<lparr>positional = [''upload-file''], options = [''bucket'' \<mapsto> ''B''],
                               help_flag = False, version_flag = False\<rparr>) = [] \<and>
        exit_code (run_cli w \<lparr>positional = [], options = Map.empty,
                               help_flag = False, version_flag = False\<rparr>) = 1 \<and>
        api_calls (run_cli w \<lparr>positional = [''frobnicate''], options = Map.empty,
                               help_flag = False, version_flag = False\<rparr>) = []"
proof
  fix w
  let ?l1 = "\<lparr>positional = [''upload-file''], options = [''bucket'' \<mapsto> ''B''],
              help_flag = False, version_flag = False\<rparr>"
  let ?l2 = "\<lparr>positional = [], options = Map.empty,
              help_flag = False, version_flag = False\<rparr>"
  let ?l3 = "\<lparr>positional = [''frobnicate''], options = Map.empty,
              help_flag = False, version_flag = False\<rparr>"
  have c: "map_of commands ''upload-file'' = Some ([''bucket'', ''file''], uploadFile)"
    by (simp add: commands_def)
  have u: "map_of commands ''frobnicate'' = None" by (simp add: commands_def)
  have t1: "\<forall>name rest demanded handler k.
            positional ?l1 = name # rest \<and> map_of commands name = Some (demanded, handler) \<and>
            k \<in> set demanded \<and> options ?l1 k = None \<longrightarrow>
            exit_code (run_cli w ?l1) = 1 \<and> api_calls (run_cli w ?l1) = [] \<and>
            (\<exists>message. stderr (run_cli w ?l1) = [usage_line, message])"
    using dispatcher_usage_errors[of ?l1 w] by simp
  have "positional ?l1 = ''upload-file'' # [] \<and>
        map_of commands ''upload-file'' = Some ([''bucket'', ''file''], uploadFile) \<and>
        ''file'' \<in> set [''bucket'', ''file''] \<and> options ?l1 ''file'' = None"
    using c by simp
  with t1 have r1: "exit_code (run_cli w ?l1) = 1 \<and> api_calls (run_cli w ?l1) = [] \<and>
            (\<exists>message. stderr (run_cli w ?l1) = [usage_line, message])"
    by blast
  have t2: "positional ?l2 = [] \<longrightarrow>
            exit_code (run_cli w ?l2) = 1 \<and> api_calls (run_cli w ?l2) = [] \<and>
            stderr (run_cli w ?l2) = [usage_line, ''You need to specify a command'']"
    using dispatcher_usage_errors[of ?l2 w] by simp
  then have r2: "exit_code (run_cli w ?l2) = 1" by simp
  have t3: "\<forall>name rest.
            positional ?l3 = name # rest \<and> map_of commands name = None \<longrightarrow>
            exit_code (run_cli w ?l3) = 0 \<and> api_calls (run_cli w ?l3) = [] \<and>
            stdout (run_cli w ?l3) = [] \<and> stderr (run_cli w ?l3) = []"
    using dispatcher_usage_errors[of ?l3 w] by simp
  have "positional ?l3 = ''frobnicate'' # [] \<and> map_of commands ''frobnicate'' = None"
    using u by simp
  with t3 have r3: "exit_code (run_cli w ?l3) = 0 \<and> api_calls (run_cli w ?l3) = [] \<and>
            stdout (run_cli w ?l3) = [] \<and> stderr (run_cli w ?l3) = []"
    by blast
  from r1 r2 r3 show "exit_code (run_cli w ?l1) = 1 \<and> api_calls (run_cli w ?l1) = [] \<and>
        exit_code (run_cli w ?l2) = 1 \<and> api_calls (run_cli w ?l3) = []"
    by simp
qed

text \<open>The claim as stated fails: an unknown command yields no usage error and the exit
  code 0.\<close>

theorem dispatcher_unknown_command_counterexample:
  "\<forall>w. exit_code (run_cli w \<lparr>positional = [''frobnicate''], options = Map.empty,
                               help_flag = False, version_flag = False\<rparr>) = 0 \<and>
        stderr (run_cli w \<lparr>positional = [''frobnicate''], options = Map.empty,
                            help_flag = False, version_flag = False\<rparr>) = []"
  by (simp add: run_cli_def commands_def quiet_def)





end
